theory Spec2Isabelle
  imports Main
begin

section \<open>Values of the store\<close>

text \<open>
  Modelled from the spec: the status type of \<open>TransformedPayload\<close> (module \<open>../types\<close>).
  The store only tests for \<open>'idle'\<close> and writes \<open>'success'\<close>; the other three values
  are the ones the specification lists.
\<close>

datatype status = Idle | Pending | Synthesizing | Success | Error

text \<open>
  Modelled from the spec: the layer type of \<open>TransformedPayload\<close> (module \<open>../types\<close>),
  as far as the store reads it: its \<open>id\<close> and its \<open>type\<close>. An \<open>id\<close> that is
  \<open>undefined\<close> is \<open>None\<close>.
\<close>

record layer =
  layer_id :: "string option"
  layer_type :: string

text \<open>
  Modelled from the spec: the declaration of \<open>TransformedPayload\<close> (module \<open>../types\<close>),
  which the store imports. The fields are the properties that \<open>ProceduralContext.tsx\<close>
  reads or writes; every one may be \<open>undefined\<close> (\<open>None\<close>) in the JavaScript object, since
  \<open>updatePayload\<close> casts a partial object to the payload type. \<open>generationId\<close> is a string
  token, as in the specification's example \<open>"g1"\<close>, and the order in which \<open><\<close> puts
  two tokens is an argument of the reconciliation; \<open>metrics\<close> is an object of a type the
  store never inspects.
\<close>

record 'm payload =
  status :: "status option"
  generationId :: "string option"
  previewUrl :: "string option"
  sourceReference :: "string option"
  targetContainer :: "string option"
  sourceContainer :: "string option"
  isConfirmed :: "bool option"
  isTransient :: "bool option"
  isSynthesizing :: "bool option"
  isPolished :: "bool option"
  requiresGeneration :: "bool option"
  isMandatory :: "bool option"
  generationAllowed :: "bool option"
  metrics :: "'m option"
  layers :: "layer list option"
  directives :: "string list option"

text \<open>The one exception the store can raise: a property read on \<open>undefined\<close>.\<close>

datatype jsError = TypeError

section \<open>JavaScript operators used by the reconciliation\<close>

text \<open>Truthiness of an optional string: \<open>undefined\<close> and \<open>""\<close> are falsy.\<close>

definition present :: "string option \<Rightarrow> bool" where
  "present v = (case v of None \<Rightarrow> False | Some s \<Rightarrow> s \<noteq> [])"

text \<open>Truthiness of an optional boolean: only \<open>true\<close> is truthy.\<close>

definition isTrue :: "bool option \<Rightarrow> bool" where
  "isTrue v = (v = Some True)"

text \<open>\<open>a || b\<close> on optional strings, and on optional objects (an object is always truthy).\<close>

definition orStr :: "string option \<Rightarrow> string option \<Rightarrow> string option" where
  "orStr a b = (if present a then a else b)"

definition orObj :: "'a option \<Rightarrow> 'a option \<Rightarrow> 'a option" where
  "orObj a b = (case a of None \<Rightarrow> b | Some x \<Rightarrow> Some x)"

text \<open>\<open>a ?? b\<close>: the left operand unless it is \<open>undefined\<close>.\<close>

definition nullish :: "'a option \<Rightarrow> 'a option \<Rightarrow> 'a option" where
  "nullish a b = (case a of None \<Rightarrow> b | Some x \<Rightarrow> Some x)"

text \<open>\<open>currentPayload?.f\<close>: \<open>undefined\<close> when there is no current payload.\<close>

definition opt :: "'p option \<Rightarrow> ('p \<Rightarrow> 'a option) \<Rightarrow> 'a option" where
  "opt cur f = (case cur of None \<Rightarrow> None | Some c \<Rightarrow> f c)"

text \<open>
  \<open>a < b\<close> on two strings: the first position where they differ decides, by the code
  units there; a proper prefix is less. A \<open>char\<close> stands for a code unit below 256.
\<close>

fun jsStringLess :: "string \<Rightarrow> string \<Rightarrow> bool" where
  "jsStringLess [] [] = False"
| "jsStringLess [] (y # ys) = True"
| "jsStringLess (x # xs) [] = False"
| "jsStringLess (x # xs) (y # ys) =
     (if x = y then jsStringLess xs ys else (of_char x :: nat) < of_char y)"

text \<open>\<open>s.startsWith(p)\<close>.\<close>

definition startsWith :: "string \<Rightarrow> string \<Rightarrow> bool" where
  "startsWith s p = (take (length p) s = p)"

section \<open>The reconciliation engine\<close>

text \<open>
  The predicate of the \<open>filter\<close> in the hard-stop gate:
  \<open>l.type !== 'generative' || (l.id && !l.id.startsWith('gen-layer-'))\<close>.
\<close>

definition keepLayer :: "layer \<Rightarrow> bool" where
  "keepLayer l =
     (layer_type l \<noteq> ''generative'' \<or>
      (case layer_id l of None \<Rightarrow> False
       | Some i \<Rightarrow> i \<noteq> [] \<and> \<not> startsWith i ''gen-layer-''))"

text \<open>\<open>incomingPayload.isMandatory || incomingPayload.directives?.includes('MANDATORY_GEN_FILL')\<close>.\<close>

definition isForced :: "'m payload \<Rightarrow> bool" where
  "isForced p =
     (isTrue (isMandatory p) \<or>
      (case directives p of None \<Rightarrow> False | Some ds \<Rightarrow> ''MANDATORY_GEN_FILL'' \<in> set ds))"

text \<open>
  The condition of the stale guard:
  \<open>currentPayload?.generationId && incomingPayload.generationId &&
    incomingPayload.generationId < currentPayload.generationId\<close>.
  What \<open><\<close> does with two tokens depends on their type, which module \<open>../types\<close>
  declares: the order of the tokens is the argument \<open>tokenLess\<close>.
\<close>

definition staleGuardBy ::
    "(string \<Rightarrow> string \<Rightarrow> bool) \<Rightarrow> 'm payload \<Rightarrow> 'm payload option \<Rightarrow> bool" where
  "staleGuardBy tokenLess incomingPayload currentPayload =
     (case (opt currentPayload generationId, generationId incomingPayload) of
        (Some c, Some i) \<Rightarrow> c \<noteq> [] \<and> i \<noteq> [] \<and> tokenLess i c
      | _ \<Rightarrow> False)"

text \<open>The guard for tokens that are strings, as the payload record has them.\<close>

abbreviation staleGuard :: "'m payload \<Rightarrow> 'm payload option \<Rightarrow> bool" where
  "staleGuard \<equiv> staleGuardBy jsStringLess"

text \<open>
  \<open>reconcileTerminalState\<close>. The rules are tried in the order of the source; the only
  failure is the \<open>filter\<close> call of the gate on a payload without \<open>layers\<close>.
\<close>

definition reconcileTerminalStateBy ::
    "(string \<Rightarrow> string \<Rightarrow> bool) \<Rightarrow> 'm payload \<Rightarrow> 'm payload option \<Rightarrow>
     jsError + 'm payload" where
  "reconcileTerminalStateBy tokenLess incomingPayload currentPayload =
     (if status incomingPayload = Some Idle \<and> \<not> present (generationId incomingPayload) then
        Inr (incomingPayload\<lparr>
          previewUrl := None,
          isConfirmed := Some False,
          isTransient := Some False,
          isSynthesizing := Some False,
          isPolished := Some False,
          requiresGeneration := Some False,
          sourceReference := None\<rparr>)
      else if generationAllowed incomingPayload = Some False then
        (case layers incomingPayload of
           None \<Rightarrow> Inl TypeError
         | Some ls \<Rightarrow>
             Inr (incomingPayload\<lparr>
               previewUrl := None,
               isConfirmed := Some False,
               isTransient := Some False,
               isSynthesizing := Some False,
               requiresGeneration := Some False,
               metrics := metrics incomingPayload,
               layers := Some (filter keepLayer ls)\<rparr>))
      else if isForced incomingPayload \<and> isTrue (requiresGeneration incomingPayload) then
        Inr (incomingPayload\<lparr>
          status := Some Success,
          isConfirmed := Some True,
          isTransient := Some False,
          isSynthesizing := isSynthesizing incomingPayload,
          previewUrl := orStr (previewUrl incomingPayload) (opt currentPayload previewUrl),
          sourceReference :=
            orStr (sourceReference incomingPayload) (opt currentPayload sourceReference),
          generationId :=
            orStr (generationId incomingPayload) (opt currentPayload generationId)\<rparr>)
      else
        (case (currentPayload, staleGuardBy tokenLess incomingPayload currentPayload) of
           (Some c, True) \<Rightarrow> Inr c
         | _ \<Rightarrow>
           if status incomingPayload = Some Idle then
             Inr (incomingPayload\<lparr>
               previewUrl := None,
               isConfirmed := Some False,
               isTransient := Some False,
               isSynthesizing := Some False\<rparr>)
           else if isTrue (isSynthesizing incomingPayload) then
             Inr ((case currentPayload of None \<Rightarrow> incomingPayload | Some c \<Rightarrow> c)\<lparr>
               isSynthesizing := Some True,
               previewUrl := opt currentPayload previewUrl,
               sourceReference :=
                 orStr (sourceReference incomingPayload) (opt currentPayload sourceReference),
               targetContainer :=
                 orStr (orStr (targetContainer incomingPayload)
                          (opt currentPayload targetContainer)) (Some []),
               metrics := orObj (metrics incomingPayload) (opt currentPayload metrics),
               generationId := opt currentPayload generationId,
               generationAllowed := Some True\<rparr>)
           else
             (case (if \<not> present (generationId incomingPayload)
                       \<and> present (opt currentPayload generationId)
                    then currentPayload else None) of
                Some c \<Rightarrow>
                  Inr (incomingPayload\<lparr>
                    previewUrl := previewUrl c,
                    generationId := generationId c,
                    isSynthesizing := isSynthesizing c,
                    isConfirmed := isConfirmed c,
                    isTransient := isTransient c,
                    sourceReference := orStr (sourceReference c) (sourceReference incomingPayload),
                    generationAllowed := Some True\<rparr>)
              | None \<Rightarrow>
                  Inr (incomingPayload\<lparr>
                    isConfirmed :=
                      (if isTrue (isTransient incomingPayload) then Some False
                       else nullish (isConfirmed incomingPayload)
                              (nullish (opt currentPayload isConfirmed) (Some False))),
                    sourceReference :=
                      orStr (sourceReference incomingPayload)
                        (opt currentPayload sourceReference),
                    generationId :=
                      orStr (generationId incomingPayload) (opt currentPayload generationId),
                    generationAllowed := Some True\<rparr>)))) "

text \<open>The reconciliation for tokens that are strings.\<close>

abbreviation reconcileTerminalState ::
    "'m payload \<Rightarrow> 'm payload option \<Rightarrow> jsError + 'm payload" where
  "reconcileTerminalState \<equiv> reconcileTerminalStateBy jsStringLess"

section \<open>Partial payloads\<close>

text \<open>
  \<open>Partial<TransformedPayload>\<close>: every property may be missing from the object
  (\<open>None\<close>); a property that is there carries a value, which may be \<open>undefined\<close>
  (\<open>Some None\<close>).
\<close>

record 'm partialPayload =
  p_status :: "status option option"
  p_generationId :: "string option option"
  p_previewUrl :: "string option option"
  p_sourceReference :: "string option option"
  p_targetContainer :: "string option option"
  p_sourceContainer :: "string option option"
  p_isConfirmed :: "bool option option"
  p_isTransient :: "bool option option"
  p_isSynthesizing :: "bool option option"
  p_isPolished :: "bool option option"
  p_requiresGeneration :: "bool option option"
  p_isMandatory :: "bool option option"
  p_generationAllowed :: "bool option option"
  p_metrics :: "'m option option"
  p_layers :: "layer list option option"
  p_directives :: "string list option option"

text \<open>One property of a spread \<open>{...base, ...partial}\<close>: the partial's, when it has it.\<close>

definition spread :: "'a \<Rightarrow> 'a option \<Rightarrow> 'a" where
  "spread base over = (case over of None \<Rightarrow> base | Some v \<Rightarrow> v)"

text \<open>\<open>{ ...currentPayload, ...partial }\<close>.\<close>

definition mergePartial :: "'m payload \<Rightarrow> 'm partialPayload \<Rightarrow> 'm payload" where
  "mergePartial c p =
     \<lparr>status = spread (status c) (p_status p),
      generationId = spread (generationId c) (p_generationId p),
      previewUrl = spread (previewUrl c) (p_previewUrl p),
      sourceReference = spread (sourceReference c) (p_sourceReference p),
      targetContainer = spread (targetContainer c) (p_targetContainer p),
      sourceContainer = spread (sourceContainer c) (p_sourceContainer p),
      isConfirmed = spread (isConfirmed c) (p_isConfirmed p),
      isTransient = spread (isTransient c) (p_isTransient p),
      isSynthesizing = spread (isSynthesizing c) (p_isSynthesizing p),
      isPolished = spread (isPolished c) (p_isPolished p),
      requiresGeneration = spread (requiresGeneration c) (p_requiresGeneration p),
      isMandatory = spread (isMandatory c) (p_isMandatory p),
      generationAllowed = spread (generationAllowed c) (p_generationAllowed p),
      metrics = spread (metrics c) (p_metrics p),
      layers = spread (layers c) (p_layers p),
      directives = spread (directives c) (p_directives p)\<rparr>"

text \<open>\<open>partial as TransformedPayload\<close>: a missing property reads as \<open>undefined\<close>.\<close>

definition asPayload :: "'m partialPayload \<Rightarrow> 'm payload" where
  "asPayload p =
     \<lparr>status = spread None (p_status p),
      generationId = spread None (p_generationId p),
      previewUrl = spread None (p_previewUrl p),
      sourceReference = spread None (p_sourceReference p),
      targetContainer = spread None (p_targetContainer p),
      sourceContainer = spread None (p_sourceContainer p),
      isConfirmed = spread None (p_isConfirmed p),
      isTransient = spread None (p_isTransient p),
      isSynthesizing = spread None (p_isSynthesizing p),
      isPolished = spread None (p_isPolished p),
      requiresGeneration = spread None (p_requiresGeneration p),
      isMandatory = spread None (p_isMandatory p),
      generationAllowed = spread None (p_generationAllowed p),
      metrics = spread None (p_metrics p),
      layers = spread None (p_layers p),
      directives = spread None (p_directives p)\<rparr>"

section \<open>The registries\<close>

text \<open>
  A registry keyed by node id is a \<open>Record<string, V>\<close>; a registry keyed by node id and
  handle id is a record of records. The values of six registries are objects the store
  never looks into (the PSD, the template metadata, the mapping context, the layout
  strategy, the feedback strategy, the knowledge context): they are type parameters, and
  such a value stands for the object up to its \<open>JSON.stringify\<close> text, which is all the
  store ever compares of it. A map holds the own properties of the registry object.
\<close>

type_synonym 'v nodeRegistry = "string \<rightharpoonup> 'v"
type_synonym 'v slotRegistry = "string \<rightharpoonup> (string \<rightharpoonup> 'v)"

record ('a, 't, 'r, 'm, 'l, 'f, 'k) proceduralState =
  psdRegistry :: "'a nodeRegistry"
  templateRegistry :: "'t nodeRegistry"
  resolvedRegistry :: "'r slotRegistry"
  payloadRegistry :: "'m payload slotRegistry"
  reviewerRegistry :: "'m payload slotRegistry"
  previewRegistry :: "string slotRegistry"
  analysisRegistry :: "'l slotRegistry"
  feedbackRegistry :: "'f slotRegistry"
  knowledgeRegistry :: "'k nodeRegistry"
  globalVersion :: nat

text \<open>The ten \<open>useState\<close> initial values.\<close>

definition initialState :: "('a, 't, 'r, 'm, 'l, 'f, 'k) proceduralState" where
  "initialState =
     \<lparr>psdRegistry = Map.empty, templateRegistry = Map.empty, resolvedRegistry = Map.empty,
      payloadRegistry = Map.empty, reviewerRegistry = Map.empty, previewRegistry = Map.empty,
      analysisRegistry = Map.empty, feedbackRegistry = Map.empty,
      knowledgeRegistry = Map.empty, globalVersion = 0\<rparr>"

text \<open>
  \<open>v => v + 1\<close> on the version counter. The counter is a JavaScript number: from
  \<open>2^53\<close> on, adding one to it returns it unchanged. It starts at zero and only this
  function changes it, so it never exceeds \<open>2^53\<close>.
\<close>

definition nextVersion :: "nat \<Rightarrow> nat" where
  "nextVersion v = (if v < 9007199254740992 then v + 1 else v)"

section \<open>Reading a property\<close>

text \<open>
  The registries are plain objects, and \<open>obj[key]\<close> on a plain object returns the own
  property when there is one, and else what \<open>Object.prototype\<close> has under that name.
  These are the names of the members of \<open>Object.prototype\<close>; a key is plain when it is
  none of them.
\<close>

definition objectPrototypeMembers :: "string list" where
  "objectPrototypeMembers =
     [''constructor'', ''__defineGetter__'', ''__defineSetter__'', ''hasOwnProperty'',
      ''__lookupGetter__'', ''__lookupSetter__'', ''isPrototypeOf'',
      ''propertyIsEnumerable'', ''toString'', ''valueOf'', ''__proto__'',
      ''toLocaleString'']"

definition plainKey :: "string \<Rightarrow> bool" where
  "plainKey k = (k \<notin> set objectPrototypeMembers)"

text \<open>
  What a read returns: \<open>undefined\<close>, an own property, or a value inherited along a path
  of property names from \<open>Object.prototype\<close>. A path of one name is a member of
  \<open>Object.prototype\<close> (a built-in function, or the prototype itself under
  \<open>__proto__\<close>), which is never \<open>undefined\<close>; a longer path is whatever the runtime
  holds there.
\<close>

datatype 'v jsRead = Absent | Own 'v | Inherited "string list"

text \<open>\<open>obj[key]\<close>, and the read \<open>registry[nodeId]?.[handleId]\<close> of a consumer.\<close>

definition readNode :: "(string \<rightharpoonup> 'v) \<Rightarrow> string \<Rightarrow> 'v jsRead" where
  "readNode obj key =
     (case obj key of
        Some v \<Rightarrow> Own v
      | None \<Rightarrow> if plainKey key then Absent else Inherited [key])"

definition readSlot :: "'v slotRegistry \<Rightarrow> string \<Rightarrow> string \<Rightarrow> 'v jsRead" where
  "readSlot registry nodeId handleId =
     (case readNode registry nodeId of
        Absent \<Rightarrow> Absent
      | Own nodeRecord \<Rightarrow> readNode nodeRecord handleId
      | Inherited path \<Rightarrow> Inherited (path @ [handleId]))"

text \<open>
  The own properties that a spread of \<open>prev[nodeId] || {}\<close> copies, and the own entry at
  an address. For plain ids the own entry is what \<open>nodeRecord[handleId]\<close> returns, with
  \<open>None\<close> for \<open>undefined\<close>. The writers below read the current value of an address as
  its own entry: they are the code for plain node and handle ids, and not for an id that
  names a member of \<open>Object.prototype\<close> at an address without an own entry, where the
  code goes on with the inherited member.
\<close>

definition nodeRecordOf :: "'v slotRegistry \<Rightarrow> string \<Rightarrow> (string \<rightharpoonup> 'v)" where
  "nodeRecordOf prev nodeId = (case prev nodeId of None \<Rightarrow> Map.empty | Some r \<Rightarrow> r)"

definition lookupSlot :: "'v slotRegistry \<Rightarrow> string \<Rightarrow> string \<Rightarrow> 'v option" where
  "lookupSlot registry nodeId handleId = nodeRecordOf registry nodeId handleId"

section \<open>State updaters\<close>

text \<open>
  Every writer hands \<open>setState\<close> a function of the previous registry. That function
  either returns \<open>prev\<close> itself, and then nothing changes and no consumer is notified, or
  it builds a new object. The two outcomes are kept apart, since an object built anew
  raises the change signal even when it holds the same entries.
\<close>

datatype 'r updated = SamePrev | Fresh 'r

definition commit :: "'r \<Rightarrow> 'r updated \<Rightarrow> 'r" where
  "commit prev u = (case u of SamePrev \<Rightarrow> prev | Fresh r \<Rightarrow> r)"

text \<open>\<open>registerPsd\<close>: \<open>prev => ({ ...prev, [nodeId]: psd })\<close>.\<close>

definition registerPsdUpdater :: "string \<Rightarrow> 'a \<Rightarrow> 'a nodeRegistry \<Rightarrow> 'a nodeRegistry updated" where
  "registerPsdUpdater nodeId psd prev = Fresh (prev(nodeId \<mapsto> psd))"

text \<open>The updater of \<open>registerTemplate\<close>, and word for word that of \<open>registerKnowledge\<close>.\<close>

definition registerNodeValueUpdater ::
    "string \<Rightarrow> 'v \<Rightarrow> 'v nodeRegistry \<Rightarrow> 'v nodeRegistry updated" where
  "registerNodeValueUpdater nodeId v prev =
     (if prev nodeId = Some v then SamePrev else Fresh (prev(nodeId \<mapsto> v)))"

text \<open>
  The updater of \<open>registerResolved\<close>, and word for word that of \<open>registerAnalysis\<close> and
  of \<open>registerFeedback\<close>.
\<close>

definition registerSlotValueUpdater ::
    "string \<Rightarrow> string \<Rightarrow> 'v \<Rightarrow> 'v slotRegistry \<Rightarrow> 'v slotRegistry updated" where
  "registerSlotValueUpdater nodeId handleId v prev =
     (let nodeRecord = nodeRecordOf prev nodeId;
          current = nodeRecord handleId
      in if current = Some v then SamePrev
         else Fresh (prev(nodeId \<mapsto> nodeRecord(handleId \<mapsto> v))))"

text \<open>
  The tail shared by the four payload writers:
  \<open>if (currentPayload && JSON.stringify(currentPayload) === JSON.stringify(reconciledPayload))
    return prev\<close>, else store the reconciled payload under the address. Two payloads
  with the same text have the same value, but not the other way round: the text also
  shows the order in which the properties were set, and the properties that the payload
  record leaves out. What the record does not decide is the argument \<open>sameText\<close>:
  whether the two texts agree, given that the two values do.
\<close>

definition storeReconciled ::
    "bool \<Rightarrow> string \<Rightarrow> string \<Rightarrow> 'm payload slotRegistry \<Rightarrow> jsError + 'm payload \<Rightarrow>
     jsError + 'm payload slotRegistry updated" where
  "storeReconciled sameText nodeId handleId prev result =
     (let nodeRecord = nodeRecordOf prev nodeId;
          currentPayload = nodeRecord handleId
      in case result of
           Inl e \<Rightarrow> Inl e
         | Inr reconciledPayload \<Rightarrow>
             Inr (if currentPayload = Some reconciledPayload \<and> sameText then SamePrev
                  else Fresh (prev(nodeId \<mapsto> nodeRecord(handleId \<mapsto> reconciledPayload)))))"

text \<open>\<open>registerPayload\<close>: \<open>masterOverride === false\<close> closes the gate on the copy.\<close>

definition registerPayloadUpdater ::
    "bool \<Rightarrow> string \<Rightarrow> string \<Rightarrow> 'm payload \<Rightarrow> bool option \<Rightarrow> 'm payload slotRegistry \<Rightarrow>
     jsError + 'm payload slotRegistry updated" where
  "registerPayloadUpdater sameText nodeId handleId payload masterOverride prev =
     (let currentPayload = nodeRecordOf prev nodeId handleId;
          effectivePayload =
            (if masterOverride = Some False then payload\<lparr>generationAllowed := Some False\<rparr>
             else payload)
      in storeReconciled sameText nodeId handleId prev
           (reconcileTerminalState effectivePayload currentPayload))"

text \<open>
  The updater of \<open>registerReviewerPayload\<close>, and word for word the second updater of
  \<open>registerPreviewPayload\<close>.
\<close>

definition reviewerPayloadUpdater ::
    "bool \<Rightarrow> string \<Rightarrow> string \<Rightarrow> 'm payload \<Rightarrow> 'm payload slotRegistry \<Rightarrow>
     jsError + 'm payload slotRegistry updated" where
  "reviewerPayloadUpdater sameText nodeId handleId payload prev =
     (let currentPayload = nodeRecordOf prev nodeId handleId;
          effectivePayload = payload\<lparr>isPolished := Some True\<rparr>
      in storeReconciled sameText nodeId handleId prev
           (reconcileTerminalState effectivePayload currentPayload))"

text \<open>The first updater of \<open>registerPreviewPayload\<close>.\<close>

definition previewRenderUpdater ::
    "string \<Rightarrow> string \<Rightarrow> string \<Rightarrow> string slotRegistry \<Rightarrow> string slotRegistry updated" where
  "previewRenderUpdater nodeId handleId renderUrl prev =
     (let nodeRecord = nodeRecordOf prev nodeId
      in if nodeRecord handleId = Some renderUrl then SamePrev
         else Fresh (prev(nodeId \<mapsto> nodeRecord(handleId \<mapsto> renderUrl))))"

text \<open>\<open>updatePayload\<close>.\<close>

definition updatePayloadUpdater ::
    "bool \<Rightarrow> string \<Rightarrow> string \<Rightarrow> 'm partialPayload \<Rightarrow> 'm payload slotRegistry \<Rightarrow>
     jsError + 'm payload slotRegistry updated" where
  "updatePayloadUpdater sameText nodeId handleId partial prev =
     (let currentPayload = nodeRecordOf prev nodeId handleId
      in if currentPayload = None
            \<and> \<not> present (spread None (p_sourceContainer partial))
            \<and> \<not> present (spread None (p_previewUrl partial))
         then Inr SamePrev
         else
           (let mergedPayload =
                  (case currentPayload of
                     Some c \<Rightarrow> mergePartial c partial
                   | None \<Rightarrow> asPayload partial)
            in storeReconciled sameText nodeId handleId prev
                 (reconcileTerminalState mergedPayload currentPayload)))"

text \<open>\<open>updatePreview\<close>.\<close>

definition updatePreviewUpdater ::
    "string \<Rightarrow> string \<Rightarrow> string \<Rightarrow> 'm payload slotRegistry \<Rightarrow>
     'm payload slotRegistry updated" where
  "updatePreviewUpdater nodeId handleId url prev =
     (case prev nodeId of
        None \<Rightarrow> SamePrev
      | Some nodeRecord \<Rightarrow>
          (case nodeRecord handleId of
             None \<Rightarrow> SamePrev
           | Some currentPayload \<Rightarrow>
               if previewUrl currentPayload = Some url then SamePrev
               else Fresh (prev(nodeId \<mapsto>
                      nodeRecord(handleId \<mapsto> currentPayload\<lparr>previewUrl := Some url\<rparr>)))))"

text \<open>\<open>clearFeedback\<close>.\<close>

definition clearFeedbackUpdater ::
    "string \<Rightarrow> string \<Rightarrow> 'f slotRegistry \<Rightarrow> 'f slotRegistry updated" where
  "clearFeedbackUpdater nodeId handleId prev =
     (case prev nodeId of
        None \<Rightarrow> SamePrev
      | Some nodeRecord \<Rightarrow>
          (case nodeRecord handleId of
             None \<Rightarrow> SamePrev
           | Some v \<Rightarrow> Fresh (prev(nodeId \<mapsto> nodeRecord(handleId := None)))))"

text \<open>
  The two updaters of \<open>unregisterNode\<close>: seven registries drop the key whatever they
  hold, the knowledge and preview registries first test that \<open>prev[nodeId]\<close> is truthy.
  The rest pattern copies own properties only.
\<close>

definition dropNodeUpdater :: "string \<Rightarrow> 'v nodeRegistry \<Rightarrow> 'v nodeRegistry updated" where
  "dropNodeUpdater nodeId prev = Fresh (prev(nodeId := None))"

definition dropNodeIfPresentUpdater ::
    "string \<Rightarrow> 'v nodeRegistry \<Rightarrow> 'v nodeRegistry updated" where
  "dropNodeIfPresentUpdater nodeId prev =
     (case readNode prev nodeId of
        Absent \<Rightarrow> SamePrev
      | Own v \<Rightarrow> Fresh (prev(nodeId := None))
      | Inherited path \<Rightarrow> Fresh (prev(nodeId := None)))"

text \<open>
  \<open>clearEntry\<close> of \<open>flushPipelineInstance\<close>. When \<open>prev[nodeId]\<close> is an inherited
  member, the rest pattern finds no own enumerable property in it and the node id gets
  an empty record.
\<close>

definition clearEntry :: "string \<Rightarrow> string \<Rightarrow> 'v slotRegistry \<Rightarrow> 'v slotRegistry updated" where
  "clearEntry nodeId handleId prev =
     (case readNode prev nodeId of
        Absent \<Rightarrow> SamePrev
      | Own handles \<Rightarrow> Fresh (prev(nodeId \<mapsto> handles(handleId := None)))
      | Inherited path \<Rightarrow> Fresh (prev(nodeId \<mapsto> Map.empty)))"

section \<open>The operations of the store\<close>

text \<open>
  Each operation takes the state and returns the next one. A payload writer fails with
  the exception of the reconciliation, and then there is no next state. A state is the
  value of the ten registries, and a registry rebuilt around an equal payload has the
  same value: the next state is the same whichever way the comparison of the texts goes
  (lemma \<open>commit_sameText\<close> below), and the operations take it to agree.
\<close>

definition registerPsd ::
    "string \<Rightarrow> 'a \<Rightarrow> ('a, 't, 'r, 'm, 'l, 'f, 'k) proceduralState \<Rightarrow>
     ('a, 't, 'r, 'm, 'l, 'f, 'k) proceduralState" where
  "registerPsd nodeId psd s =
     s\<lparr>psdRegistry := commit (psdRegistry s) (registerPsdUpdater nodeId psd (psdRegistry s))\<rparr>"

definition registerTemplate ::
    "string \<Rightarrow> 't \<Rightarrow> ('a, 't, 'r, 'm, 'l, 'f, 'k) proceduralState \<Rightarrow>
     ('a, 't, 'r, 'm, 'l, 'f, 'k) proceduralState" where
  "registerTemplate nodeId template s =
     s\<lparr>templateRegistry :=
         commit (templateRegistry s)
           (registerNodeValueUpdater nodeId template (templateRegistry s))\<rparr>"

definition registerResolved ::
    "string \<Rightarrow> string \<Rightarrow> 'r \<Rightarrow> ('a, 't, 'r, 'm, 'l, 'f, 'k) proceduralState \<Rightarrow>
     ('a, 't, 'r, 'm, 'l, 'f, 'k) proceduralState" where
  "registerResolved nodeId handleId context s =
     s\<lparr>resolvedRegistry :=
         commit (resolvedRegistry s)
           (registerSlotValueUpdater nodeId handleId context (resolvedRegistry s))\<rparr>"

definition registerPayload ::
    "string \<Rightarrow> string \<Rightarrow> 'm payload \<Rightarrow> bool option \<Rightarrow>
     ('a, 't, 'r, 'm, 'l, 'f, 'k) proceduralState \<Rightarrow>
     jsError + ('a, 't, 'r, 'm, 'l, 'f, 'k) proceduralState" where
  "registerPayload nodeId handleId payload masterOverride s =
     (case registerPayloadUpdater True nodeId handleId payload masterOverride (payloadRegistry s) of
        Inl e \<Rightarrow> Inl e
      | Inr u \<Rightarrow> Inr (s\<lparr>payloadRegistry := commit (payloadRegistry s) u\<rparr>))"

definition registerReviewerPayload ::
    "string \<Rightarrow> string \<Rightarrow> 'm payload \<Rightarrow> ('a, 't, 'r, 'm, 'l, 'f, 'k) proceduralState \<Rightarrow>
     jsError + ('a, 't, 'r, 'm, 'l, 'f, 'k) proceduralState" where
  "registerReviewerPayload nodeId handleId payload s =
     (case reviewerPayloadUpdater True nodeId handleId payload (reviewerRegistry s) of
        Inl e \<Rightarrow> Inl e
      | Inr u \<Rightarrow> Inr (s\<lparr>reviewerRegistry := commit (reviewerRegistry s) u\<rparr>))"

definition registerPreviewPayload ::
    "string \<Rightarrow> string \<Rightarrow> 'm payload \<Rightarrow> string \<Rightarrow>
     ('a, 't, 'r, 'm, 'l, 'f, 'k) proceduralState \<Rightarrow>
     jsError + ('a, 't, 'r, 'm, 'l, 'f, 'k) proceduralState" where
  "registerPreviewPayload nodeId handleId payload renderUrl s =
     (case reviewerPayloadUpdater True nodeId handleId payload (reviewerRegistry s) of
        Inl e \<Rightarrow> Inl e
      | Inr u \<Rightarrow>
          Inr (s\<lparr>previewRegistry :=
                   commit (previewRegistry s)
                     (previewRenderUpdater nodeId handleId renderUrl (previewRegistry s)),
                 reviewerRegistry := commit (reviewerRegistry s) u\<rparr>))"

definition updatePayload ::
    "string \<Rightarrow> string \<Rightarrow> 'm partialPayload \<Rightarrow> ('a, 't, 'r, 'm, 'l, 'f, 'k) proceduralState \<Rightarrow>
     jsError + ('a, 't, 'r, 'm, 'l, 'f, 'k) proceduralState" where
  "updatePayload nodeId handleId partial s =
     (case updatePayloadUpdater True nodeId handleId partial (payloadRegistry s) of
        Inl e \<Rightarrow> Inl e
      | Inr u \<Rightarrow> Inr (s\<lparr>payloadRegistry := commit (payloadRegistry s) u\<rparr>))"

definition registerAnalysis ::
    "string \<Rightarrow> string \<Rightarrow> 'l \<Rightarrow> ('a, 't, 'r, 'm, 'l, 'f, 'k) proceduralState \<Rightarrow>
     ('a, 't, 'r, 'm, 'l, 'f, 'k) proceduralState" where
  "registerAnalysis nodeId handleId strategy s =
     s\<lparr>analysisRegistry :=
         commit (analysisRegistry s)
           (registerSlotValueUpdater nodeId handleId strategy (analysisRegistry s))\<rparr>"

definition registerFeedback ::
    "string \<Rightarrow> string \<Rightarrow> 'f \<Rightarrow> ('a, 't, 'r, 'm, 'l, 'f, 'k) proceduralState \<Rightarrow>
     ('a, 't, 'r, 'm, 'l, 'f, 'k) proceduralState" where
  "registerFeedback nodeId handleId strategy s =
     s\<lparr>feedbackRegistry :=
         commit (feedbackRegistry s)
           (registerSlotValueUpdater nodeId handleId strategy (feedbackRegistry s))\<rparr>"

definition clearFeedback ::
    "string \<Rightarrow> string \<Rightarrow> ('a, 't, 'r, 'm, 'l, 'f, 'k) proceduralState \<Rightarrow>
     ('a, 't, 'r, 'm, 'l, 'f, 'k) proceduralState" where
  "clearFeedback nodeId handleId s =
     s\<lparr>feedbackRegistry :=
         commit (feedbackRegistry s) (clearFeedbackUpdater nodeId handleId (feedbackRegistry s))\<rparr>"

definition registerKnowledge ::
    "string \<Rightarrow> 'k \<Rightarrow> ('a, 't, 'r, 'm, 'l, 'f, 'k) proceduralState \<Rightarrow>
     ('a, 't, 'r, 'm, 'l, 'f, 'k) proceduralState" where
  "registerKnowledge nodeId context s =
     s\<lparr>knowledgeRegistry :=
         commit (knowledgeRegistry s)
           (registerNodeValueUpdater nodeId context (knowledgeRegistry s))\<rparr>"

definition updatePreview ::
    "string \<Rightarrow> string \<Rightarrow> string \<Rightarrow> ('a, 't, 'r, 'm, 'l, 'f, 'k) proceduralState \<Rightarrow>
     ('a, 't, 'r, 'm, 'l, 'f, 'k) proceduralState" where
  "updatePreview nodeId handleId url s =
     s\<lparr>payloadRegistry :=
         commit (payloadRegistry s) (updatePreviewUpdater nodeId handleId url (payloadRegistry s))\<rparr>"

definition unregisterNode ::
    "string \<Rightarrow> ('a, 't, 'r, 'm, 'l, 'f, 'k) proceduralState \<Rightarrow>
     ('a, 't, 'r, 'm, 'l, 'f, 'k) proceduralState" where
  "unregisterNode nodeId s =
     s\<lparr>psdRegistry := commit (psdRegistry s) (dropNodeUpdater nodeId (psdRegistry s)),
       templateRegistry :=
         commit (templateRegistry s) (dropNodeUpdater nodeId (templateRegistry s)),
       resolvedRegistry :=
         commit (resolvedRegistry s) (dropNodeUpdater nodeId (resolvedRegistry s)),
       payloadRegistry := commit (payloadRegistry s) (dropNodeUpdater nodeId (payloadRegistry s)),
       reviewerRegistry :=
         commit (reviewerRegistry s) (dropNodeUpdater nodeId (reviewerRegistry s)),
       analysisRegistry :=
         commit (analysisRegistry s) (dropNodeUpdater nodeId (analysisRegistry s)),
       feedbackRegistry :=
         commit (feedbackRegistry s) (dropNodeUpdater nodeId (feedbackRegistry s)),
       knowledgeRegistry :=
         commit (knowledgeRegistry s) (dropNodeIfPresentUpdater nodeId (knowledgeRegistry s)),
       previewRegistry :=
         commit (previewRegistry s) (dropNodeIfPresentUpdater nodeId (previewRegistry s)),
       globalVersion := nextVersion (globalVersion s)\<rparr>"

definition flushPipelineInstance ::
    "string \<Rightarrow> string \<Rightarrow> ('a, 't, 'r, 'm, 'l, 'f, 'k) proceduralState \<Rightarrow>
     ('a, 't, 'r, 'm, 'l, 'f, 'k) proceduralState" where
  "flushPipelineInstance nodeId handleId s =
     s\<lparr>resolvedRegistry :=
         commit (resolvedRegistry s) (clearEntry nodeId handleId (resolvedRegistry s)),
       payloadRegistry :=
         commit (payloadRegistry s) (clearEntry nodeId handleId (payloadRegistry s)),
       reviewerRegistry :=
         commit (reviewerRegistry s) (clearEntry nodeId handleId (reviewerRegistry s)),
       previewRegistry :=
         commit (previewRegistry s) (clearEntry nodeId handleId (previewRegistry s)),
       analysisRegistry :=
         commit (analysisRegistry s) (clearEntry nodeId handleId (analysisRegistry s)),
       feedbackRegistry :=
         commit (feedbackRegistry s) (clearEntry nodeId handleId (feedbackRegistry s))\<rparr>"

definition triggerGlobalRefresh ::
    "('a, 't, 'r, 'm, 'l, 'f, 'k) proceduralState \<Rightarrow>
     ('a, 't, 'r, 'm, 'l, 'f, 'k) proceduralState" where
  "triggerGlobalRefresh s = s\<lparr>globalVersion := nextVersion (globalVersion s)\<rparr>"

section \<open>Reachable states\<close>

text \<open>The fifteen entry points of \<open>ProceduralContextType\<close>, with their arguments.\<close>

datatype ('a, 't, 'r, 'm, 'l, 'f, 'k) storeCall =
    RegisterPsd string 'a
  | RegisterTemplate string 't
  | RegisterResolved string string 'r
  | RegisterPayload string string "'m payload" "bool option"
  | RegisterReviewerPayload string string "'m payload"
  | RegisterPreviewPayload string string "'m payload" string
  | UpdatePayload string string "'m partialPayload"
  | RegisterAnalysis string string 'l
  | RegisterFeedback string string 'f
  | ClearFeedback string string
  | RegisterKnowledge string 'k
  | UpdatePreview string string string
  | UnregisterNode string
  | FlushPipelineInstance string string
  | TriggerGlobalRefresh

fun perform ::
    "('a, 't, 'r, 'm, 'l, 'f, 'k) storeCall \<Rightarrow> ('a, 't, 'r, 'm, 'l, 'f, 'k) proceduralState \<Rightarrow>
     jsError + ('a, 't, 'r, 'm, 'l, 'f, 'k) proceduralState" where
  "perform (RegisterPsd n psd) s = Inr (registerPsd n psd s)"
| "perform (RegisterTemplate n t) s = Inr (registerTemplate n t s)"
| "perform (RegisterResolved n h c) s = Inr (registerResolved n h c s)"
| "perform (RegisterPayload n h p mo) s = registerPayload n h p mo s"
| "perform (RegisterReviewerPayload n h p) s = registerReviewerPayload n h p s"
| "perform (RegisterPreviewPayload n h p url) s = registerPreviewPayload n h p url s"
| "perform (UpdatePayload n h partial) s = updatePayload n h partial s"
| "perform (RegisterAnalysis n h st) s = Inr (registerAnalysis n h st s)"
| "perform (RegisterFeedback n h st) s = Inr (registerFeedback n h st s)"
| "perform (ClearFeedback n h) s = Inr (clearFeedback n h s)"
| "perform (RegisterKnowledge n c) s = Inr (registerKnowledge n c s)"
| "perform (UpdatePreview n h url) s = Inr (updatePreview n h url s)"
| "perform (UnregisterNode n) s = Inr (unregisterNode n s)"
| "perform (FlushPipelineInstance n h) s = Inr (flushPipelineInstance n h s)"
| "perform TriggerGlobalRefresh s = Inr (triggerGlobalRefresh s)"

text \<open>A call whose node id and handle id are plain keys.\<close>

fun plainCall :: "('a, 't, 'r, 'm, 'l, 'f, 'k) storeCall \<Rightarrow> bool" where
  "plainCall (RegisterPsd n psd) = plainKey n"
| "plainCall (RegisterTemplate n t) = plainKey n"
| "plainCall (RegisterResolved n h c) = (plainKey n \<and> plainKey h)"
| "plainCall (RegisterPayload n h p mo) = (plainKey n \<and> plainKey h)"
| "plainCall (RegisterReviewerPayload n h p) = (plainKey n \<and> plainKey h)"
| "plainCall (RegisterPreviewPayload n h p url) = (plainKey n \<and> plainKey h)"
| "plainCall (UpdatePayload n h partial) = (plainKey n \<and> plainKey h)"
| "plainCall (RegisterAnalysis n h st) = (plainKey n \<and> plainKey h)"
| "plainCall (RegisterFeedback n h st) = (plainKey n \<and> plainKey h)"
| "plainCall (ClearFeedback n h) = (plainKey n \<and> plainKey h)"
| "plainCall (RegisterKnowledge n c) = plainKey n"
| "plainCall (UpdatePreview n h url) = (plainKey n \<and> plainKey h)"
| "plainCall (UnregisterNode n) = plainKey n"
| "plainCall (FlushPipelineInstance n h) = (plainKey n \<and> plainKey h)"
| "plainCall TriggerGlobalRefresh = True"

text \<open>
  The states the store reaches when every id it is given is a plain key: the initial one,
  and any reached by such a call that returns.
\<close>

inductive reachable :: "('a, 't, 'r, 'm, 'l, 'f, 'k) proceduralState \<Rightarrow> bool" where
  reachable_initial: "reachable initialState"
| reachable_call:
    "reachable s \<Longrightarrow> plainCall call \<Longrightarrow> perform call s = Inr s' \<Longrightarrow> reachable s'"

text \<open>A sequence of calls, stopping at the first that throws.\<close>

fun performAll ::
    "('a, 't, 'r, 'm, 'l, 'f, 'k) storeCall list \<Rightarrow>
     ('a, 't, 'r, 'm, 'l, 'f, 'k) proceduralState \<Rightarrow>
     jsError + ('a, 't, 'r, 'm, 'l, 'f, 'k) proceduralState" where
  "performAll [] s = Inr s"
| "performAll (call # calls) s =
     (case perform call s of Inl e \<Rightarrow> Inl e | Inr s' \<Rightarrow> performAll calls s')"

text \<open>
  The property of the payloads in the reviewer registry: polished, or reset (idle, without
  a generation id, and then not polished).
\<close>

definition polishedOrReset :: "'m payload \<Rightarrow> bool" where
  "polishedOrReset p =
     (isPolished p = Some True \<or>
      (status p = Some Idle \<and> \<not> present (generationId p) \<and> isPolished p = Some False))"



section \<open>Example values\<close>

text \<open>A payload object with no property set, and one that carries a generation id.\<close>

definition blankPayload :: "'m payload" where
  "blankPayload =
     \<lparr>status = None, generationId = None, previewUrl = None, sourceReference = None,
      targetContainer = None, sourceContainer = None, isConfirmed = None, isTransient = None,
      isSynthesizing = None, isPolished = None, requiresGeneration = None,
      isMandatory = None, generationAllowed = None, metrics = None, layers = None,
      directives = None\<rparr>"

definition payloadWithId :: "string \<Rightarrow> 'm payload" where
  "payloadWithId g =
     blankPayload\<lparr>status := Some Success, generationId := Some g, layers := Some []\<rparr>"

text \<open>
  The layer filter in the words of the specification: a layer goes when its type is
  generative and its id carries the synthetic-additive prefix, and every other layer stays.
\<close>

definition hasSyntheticPrefix :: "layer \<Rightarrow> bool" where
  "hasSyntheticPrefix l =
     (case layer_id l of None \<Rightarrow> False | Some i \<Rightarrow> startsWith i ''gen-layer-'')"

definition specGateLayers :: "layer list \<Rightarrow> layer list" where
  "specGateLayers ls =
     filter (\<lambda>l. \<not> (layer_type l = ''generative'' \<and> hasSyntheticPrefix l)) ls"

text \<open>The three layers of the specification's filtering example.\<close>

definition gateExampleLayers :: "layer list" where
  "gateExampleLayers =
     [\<lparr>layer_id = Some ''0.3.1'', layer_type = ''generative''\<rparr>,
      \<lparr>layer_id = Some ''gen-layer-9'', layer_type = ''generative''\<rparr>,
      \<lparr>layer_id = Some ''bg'', layer_type = ''pixel''\<rparr>]"

text \<open>A store with two nodes; the first has two slots.\<close>

definition exampleState :: "(nat, nat, nat, unit, nat, nat, nat) proceduralState" where
  "exampleState =
     \<lparr>psdRegistry = [''n1'' \<mapsto> 1, ''n2'' \<mapsto> 2],
      templateRegistry = [''n1'' \<mapsto> 3, ''n2'' \<mapsto> 4],
      resolvedRegistry = [''n1'' \<mapsto> [''out-0'' \<mapsto> 5, ''out-1'' \<mapsto> 6], ''n2'' \<mapsto> [''out-0'' \<mapsto> 7]],
      payloadRegistry =
        [''n1'' \<mapsto> [''out-0'' \<mapsto> payloadWithId ''g1'', ''out-1'' \<mapsto> payloadWithId ''g2''],
         ''n2'' \<mapsto> [''out-0'' \<mapsto> payloadWithId ''g3'']],
      reviewerRegistry =
        [''n1'' \<mapsto> [''out-0'' \<mapsto> (payloadWithId ''g1'')\<lparr>isPolished := Some True\<rparr>,
                   ''out-1'' \<mapsto> (payloadWithId ''g2'')\<lparr>isPolished := Some True\<rparr>],
         ''n2'' \<mapsto> [''out-0'' \<mapsto> (payloadWithId ''g3'')\<lparr>isPolished := Some True\<rparr>]],
      previewRegistry =
        [''n1'' \<mapsto> [''out-0'' \<mapsto> ''data:a'', ''out-1'' \<mapsto> ''data:b''],
         ''n2'' \<mapsto> [''out-0'' \<mapsto> ''data:c'']],
      analysisRegistry = [''n1'' \<mapsto> [''out-0'' \<mapsto> 8, ''out-1'' \<mapsto> 9], ''n2'' \<mapsto> [''out-0'' \<mapsto> 10]],
      feedbackRegistry = [''n1'' \<mapsto> [''out-0'' \<mapsto> 11, ''out-1'' \<mapsto> 12], ''n2'' \<mapsto> [''out-0'' \<mapsto> 13]],
      knowledgeRegistry = [''n1'' \<mapsto> 14, ''n2'' \<mapsto> 15],
      globalVersion = 3\<rparr>"

text \<open>
  The payload a reset leaves of an idle payload with nothing else set, and the store after
  the first reviewer call registered that idle payload.
\<close>

definition resetPayload :: "'m payload" where
  "resetPayload =
     blankPayload\<lparr>status := Some Idle, isConfirmed := Some False, isTransient := Some False,
       isSynthesizing := Some False, isPolished := Some False,
       requiresGeneration := Some False\<rparr>"

definition resetReviewerState ::
    "(unit, unit, unit, unit, unit, unit, unit) proceduralState" where
  "resetReviewerState =
     initialState\<lparr>reviewerRegistry := [''n1'' \<mapsto> [''out-0'' \<mapsto> resetPayload]]\<rparr>"

text \<open>The store after the first reviewer call registered a payload with id \<open>"g1"\<close>.\<close>

definition polishedPayload :: "'m payload" where
  "polishedPayload =
     (payloadWithId ''g1'')\<lparr>isConfirmed := Some False, isPolished := Some True,
        generationAllowed := Some True\<rparr>"

definition polishedReviewerState ::
    "(unit, unit, unit, unit, unit, unit, unit) proceduralState" where
  "polishedReviewerState =
     initialState\<lparr>reviewerRegistry := [''n1'' \<mapsto> [''out-0'' \<mapsto> polishedPayload]]\<rparr>"







section \<open>Unfolding the examples\<close>

text \<open>The definitions a concrete call needs unfolded to be evaluated.\<close>

lemmas js_defs = present_def isTrue_def orStr_def orObj_def nullish_def opt_def isForced_def
  staleGuardBy_def
lemmas updater_defs = storeReconciled_def registerPayloadUpdater_def reviewerPayloadUpdater_def
  previewRenderUpdater_def updatePayloadUpdater_def updatePreviewUpdater_def commit_def
  nodeRecordOf_def lookupSlot_def
lemmas call_defs = registerPayload_def registerReviewerPayload_def registerPreviewPayload_def
  updatePayload_def updatePreview_def


section \<open>The rules of the reconciliation, one by one\<close>

text \<open>
  Each lemma gives the result of \<open>reconcileTerminalState\<close> when one rule is the first to
  match. The later proofs go through these instead of unfolding the whole function.
\<close>

lemma rule_reset:
  "status i = Some Idle \<Longrightarrow> \<not> present (generationId i) \<Longrightarrow>
   reconcileTerminalState i cur = Inr (i\<lparr>previewUrl := None, isConfirmed := Some False,
     isTransient := Some False, isSynthesizing := Some False, isPolished := Some False,
     requiresGeneration := Some False, sourceReference := None\<rparr>)"
  by (simp add: reconcileTerminalStateBy_def)

lemma rule_gate:
  "status i \<noteq> Some Idle \<or> present (generationId i) \<Longrightarrow>
   generationAllowed i = Some False \<Longrightarrow>
   reconcileTerminalState i cur =
     (case layers i of None \<Rightarrow> Inl TypeError
      | Some ls \<Rightarrow> Inr (i\<lparr>previewUrl := None, isConfirmed := Some False,
          isTransient := Some False, isSynthesizing := Some False,
          requiresGeneration := Some False, layers := Some (filter keepLayer ls)\<rparr>))"
  by (auto simp: reconcileTerminalStateBy_def split: option.splits)

lemma rule_mandatory:
  "status i \<noteq> Some Idle \<or> present (generationId i) \<Longrightarrow>
   generationAllowed i \<noteq> Some False \<Longrightarrow> isForced i \<Longrightarrow> isTrue (requiresGeneration i) \<Longrightarrow>
   reconcileTerminalState i cur =
     Inr (i\<lparr>status := Some Success, isConfirmed := Some True, isTransient := Some False,
       previewUrl := orStr (previewUrl i) (opt cur previewUrl),
       sourceReference := orStr (sourceReference i) (opt cur sourceReference),
       generationId := orStr (generationId i) (opt cur generationId)\<rparr>)"
  by (auto simp: reconcileTerminalStateBy_def)

lemma rule_stale:
  "status i \<noteq> Some Idle \<or> present (generationId i) \<Longrightarrow>
   generationAllowed i \<noteq> Some False \<Longrightarrow> \<not> (isForced i \<and> isTrue (requiresGeneration i)) \<Longrightarrow>
   staleGuard i (Some c) \<Longrightarrow>
   reconcileTerminalState i (Some c) = Inr c"
  by (auto simp: reconcileTerminalStateBy_def)

lemma rule_idle:
  "present (generationId i) \<Longrightarrow> status i = Some Idle \<Longrightarrow>
   generationAllowed i \<noteq> Some False \<Longrightarrow> \<not> (isForced i \<and> isTrue (requiresGeneration i)) \<Longrightarrow>
   \<not> staleGuard i cur \<Longrightarrow>
   reconcileTerminalState i cur =
     Inr (i\<lparr>previewUrl := None, isConfirmed := Some False, isTransient := Some False,
       isSynthesizing := Some False\<rparr>)"
  by (auto simp: reconcileTerminalStateBy_def split: option.splits)

lemma rule_synthesis:
  "status i \<noteq> Some Idle \<Longrightarrow>
   generationAllowed i \<noteq> Some False \<Longrightarrow> \<not> (isForced i \<and> isTrue (requiresGeneration i)) \<Longrightarrow>
   \<not> staleGuard i cur \<Longrightarrow> isTrue (isSynthesizing i) \<Longrightarrow>
   reconcileTerminalState i cur =
     Inr ((case cur of None \<Rightarrow> i | Some c \<Rightarrow> c)\<lparr>
       isSynthesizing := Some True,
       previewUrl := opt cur previewUrl,
       sourceReference := orStr (sourceReference i) (opt cur sourceReference),
       targetContainer :=
         orStr (orStr (targetContainer i) (opt cur targetContainer)) (Some []),
       metrics := orObj (metrics i) (opt cur metrics),
       generationId := opt cur generationId,
       generationAllowed := Some True\<rparr>)"
  by (auto simp: reconcileTerminalStateBy_def split: option.splits)

lemma rule_geometric:
  "status i \<noteq> Some Idle \<Longrightarrow>
   generationAllowed i \<noteq> Some False \<Longrightarrow> \<not> (isForced i \<and> isTrue (requiresGeneration i)) \<Longrightarrow>
   \<not> isTrue (isSynthesizing i) \<Longrightarrow>
   \<not> present (generationId i) \<Longrightarrow> present (generationId c) \<Longrightarrow>
   reconcileTerminalState i (Some c) =
     Inr (i\<lparr>previewUrl := previewUrl c, generationId := generationId c,
       isSynthesizing := isSynthesizing c, isConfirmed := isConfirmed c,
       isTransient := isTransient c,
       sourceReference := orStr (sourceReference c) (sourceReference i),
       generationAllowed := Some True\<rparr>)"
  by (auto simp: reconcileTerminalStateBy_def staleGuardBy_def opt_def present_def
      split: option.splits)

lemma rule_final:
  "status i \<noteq> Some Idle \<Longrightarrow>
   generationAllowed i \<noteq> Some False \<Longrightarrow> \<not> (isForced i \<and> isTrue (requiresGeneration i)) \<Longrightarrow>
   \<not> staleGuard i cur \<Longrightarrow> \<not> isTrue (isSynthesizing i) \<Longrightarrow>
   present (generationId i) \<or> \<not> present (opt cur generationId) \<Longrightarrow>
   reconcileTerminalState i cur =
     Inr (i\<lparr>isConfirmed :=
         (if isTrue (isTransient i) then Some False
          else nullish (isConfirmed i) (nullish (opt cur isConfirmed) (Some False))),
       sourceReference := orStr (sourceReference i) (opt cur sourceReference),
       generationId := orStr (generationId i) (opt cur generationId),
       generationAllowed := Some True\<rparr>)"
  by (auto simp: reconcileTerminalStateBy_def split: option.splits)

section \<open>The comparison of strings\<close>


lemma jsStringLess_Nil: "\<not> jsStringLess a []"
  by (cases a) auto

section \<open>Consequences of the rules\<close>

lemma staleGuard_None [simp]: "\<not> staleGuard i None"
  by (simp add: staleGuardBy_def opt_def)









text \<open>Exactly one rule is the first to match; the cases name it.\<close>

lemma reconcile_rule_cases:
  obtains
    (reset) "status i = Some Idle" "\<not> present (generationId i)"
  | (gate) "status i \<noteq> Some Idle \<or> present (generationId i)"
      "generationAllowed i = Some False"
  | (mandatory) "status i \<noteq> Some Idle \<or> present (generationId i)"
      "generationAllowed i \<noteq> Some False" "isForced i" "isTrue (requiresGeneration i)"
  | (stale) c where "cur = Some c" "status i \<noteq> Some Idle \<or> present (generationId i)"
      "generationAllowed i \<noteq> Some False"
      "\<not> (isForced i \<and> isTrue (requiresGeneration i))" "staleGuard i (Some c)"
  | (idle) "present (generationId i)" "status i = Some Idle"
      "generationAllowed i \<noteq> Some False"
      "\<not> (isForced i \<and> isTrue (requiresGeneration i))" "\<not> staleGuard i cur"
  | (synthesis) "status i \<noteq> Some Idle" "generationAllowed i \<noteq> Some False"
      "\<not> (isForced i \<and> isTrue (requiresGeneration i))" "\<not> staleGuard i cur"
      "isTrue (isSynthesizing i)"
  | (geometric) c where "cur = Some c" "status i \<noteq> Some Idle"
      "generationAllowed i \<noteq> Some False"
      "\<not> (isForced i \<and> isTrue (requiresGeneration i))" "\<not> isTrue (isSynthesizing i)"
      "\<not> present (generationId i)" "present (generationId c)"
  | (final) "status i \<noteq> Some Idle" "generationAllowed i \<noteq> Some False"
      "\<not> (isForced i \<and> isTrue (requiresGeneration i))" "\<not> staleGuard i cur"
      "\<not> isTrue (isSynthesizing i)"
      "present (generationId i) \<or> \<not> present (opt cur generationId)"
proof (cases cur)
  case None
  then have "\<not> staleGuard i cur" "\<not> present (opt cur generationId)"
    by (simp_all add: opt_def present_def)
  then show ?thesis
    using reset gate mandatory idle synthesis final by blast
next
  case (Some c)
  then have "opt cur generationId = generationId c"
    by (simp add: opt_def)
  then show ?thesis
    using Some reset gate mandatory stale idle synthesis geometric final by metis
qed



text \<open>What the reviewer writers keep true of every payload they store.\<close>

lemma reconcile_polished:
  assumes "reconcileTerminalState (p\<lparr>isPolished := Some True\<rparr>) cur = Inr r"
    and "\<And>c. cur = Some c \<Longrightarrow> polishedOrReset c"
  shows "polishedOrReset r"
proof (cases rule: reconcile_rule_cases [where i = "p\<lparr>isPolished := Some True\<rparr>" and cur = cur])
  case reset
  then show ?thesis
    using assms(1) rule_reset [of "p\<lparr>isPolished := Some True\<rparr>" cur]
    by (auto simp: polishedOrReset_def)
next
  case gate
  then show ?thesis
    using assms(1) rule_gate [of "p\<lparr>isPolished := Some True\<rparr>" cur]
    by (auto simp: polishedOrReset_def split: option.splits)
next
  case mandatory
  then show ?thesis
    using assms(1) rule_mandatory [of "p\<lparr>isPolished := Some True\<rparr>" cur]
    by (auto simp: polishedOrReset_def)
next
  case (stale c)
  then have "r = c"
    using assms(1) rule_stale [of "p\<lparr>isPolished := Some True\<rparr>" c] by simp
  with stale(1) assms(2) show ?thesis by simp
next
  case idle
  then show ?thesis
    using assms(1) rule_idle [of "p\<lparr>isPolished := Some True\<rparr>" cur]
    by (auto simp: polishedOrReset_def)
next
  case synthesis
  show ?thesis
  proof (cases cur)
    case None
    with synthesis show ?thesis
      using assms(1) rule_synthesis [of "p\<lparr>isPolished := Some True\<rparr>" cur]
      by (auto simp: polishedOrReset_def)
  next
    case (Some c)
    with synthesis have "isPolished r = isPolished c" "status r = status c"
        "generationId r = generationId c"
      using assms(1) rule_synthesis [of "p\<lparr>isPolished := Some True\<rparr>" cur]
      by (auto simp: opt_def)
    with assms(2) [OF Some] show ?thesis
      by (simp add: polishedOrReset_def)
  qed
next
  case (geometric c)
  then show ?thesis
    using assms(1) rule_geometric [of "p\<lparr>isPolished := Some True\<rparr>" c]
    by (auto simp: polishedOrReset_def)
next
  case final
  then show ?thesis
    using assms(1) rule_final [of "p\<lparr>isPolished := Some True\<rparr>" cur]
    by (auto simp: polishedOrReset_def)
qed

section \<open>What each writer does to a registry\<close>

text \<open>
  A payload writer that returns has reconciled its candidate against the current payload
  of the address, and the registry it commits differs from the previous one at that
  address only.
\<close>

lemma lookupSlot_store:
  "lookupSlot (prev(n \<mapsto> (nodeRecordOf prev n)(h \<mapsto> v))) n' h'
     = (if n' = n \<and> h' = h then Some v else lookupSlot prev n' h')"
  by (simp add: lookupSlot_def nodeRecordOf_def)

lemma storeReconciled_Inr:
  assumes "storeReconciled t n h prev res = Inr u"
  obtains r where "res = Inr r"
    and "u = (if lookupSlot prev n h = Some r \<and> t then SamePrev
              else Fresh (prev(n \<mapsto> (nodeRecordOf prev n)(h \<mapsto> r))))"
  using assms by (cases res) (auto simp: storeReconciled_def lookupSlot_def Let_def)

lemma storeReconciled_lookup:
  assumes "storeReconciled t n h prev (Inr r) = Inr u"
  shows "lookupSlot (commit prev u) n' h'
     = (if n' = n \<and> h' = h then Some r else lookupSlot prev n' h')"
proof -
  from assms have "u = (if lookupSlot prev n h = Some r \<and> t then SamePrev
              else Fresh (prev(n \<mapsto> (nodeRecordOf prev n)(h \<mapsto> r))))"
    by (auto elim: storeReconciled_Inr)
  then show ?thesis
    by (simp add: commit_def lookupSlot_store)
qed

text \<open>
  The registry a payload writer commits has the same value whichever way the comparison of
  the texts goes.
\<close>

lemma commit_sameText:
  assumes "storeReconciled t n h prev res = Inr u"
    and "storeReconciled t' n h prev res = Inr u'"
  shows "commit prev u = commit prev u'"
proof -
  from assms(1) obtain r where r: "res = Inr r"
    and u: "u = (if lookupSlot prev n h = Some r \<and> t then SamePrev
              else Fresh (prev(n \<mapsto> (nodeRecordOf prev n)(h \<mapsto> r))))"
    by (rule storeReconciled_Inr)
  from assms(2) r have u': "u' = (if lookupSlot prev n h = Some r \<and> t' then SamePrev
              else Fresh (prev(n \<mapsto> (nodeRecordOf prev n)(h \<mapsto> r))))"
    by (auto elim: storeReconciled_Inr)
  have "lookupSlot prev n h = Some r \<Longrightarrow>
      prev(n \<mapsto> (nodeRecordOf prev n)(h \<mapsto> r)) = prev"
    by (cases "prev n") (auto simp: lookupSlot_def nodeRecordOf_def map_upd_triv)
  with u u' show ?thesis
    by (simp add: commit_def)
qed


lemma reviewerPayloadUpdater_Inr:
  assumes "reviewerPayloadUpdater t n h p prev = Inr u"
  obtains r where
    "reconcileTerminalState (p\<lparr>isPolished := Some True\<rparr>) (lookupSlot prev n h) = Inr r"
    and "u = SamePrev \<longleftrightarrow> lookupSlot prev n h = Some r \<and> t"
    and "\<And>n' h'. lookupSlot (commit prev u) n' h'
           = (if n' = n \<and> h' = h then Some r else lookupSlot prev n' h')"
proof -
  let ?res = "reconcileTerminalState (p\<lparr>isPolished := Some True\<rparr>) (lookupSlot prev n h)"
  from assms have st: "storeReconciled t n h prev ?res = Inr u"
    by (simp add: reviewerPayloadUpdater_def Let_def lookupSlot_def)
  then obtain r where r: "?res = Inr r"
    and u: "u = (if lookupSlot prev n h = Some r \<and> t then SamePrev
              else Fresh (prev(n \<mapsto> (nodeRecordOf prev n)(h \<mapsto> r))))"
    by (rule storeReconciled_Inr)
  from u have "u = SamePrev \<longleftrightarrow> lookupSlot prev n h = Some r \<and> t"
    by simp
  moreover have "\<And>n' h'. lookupSlot (commit prev u) n' h'
           = (if n' = n \<and> h' = h then Some r else lookupSlot prev n' h')"
    using st r storeReconciled_lookup [of t n h prev r u] by simp
  ultimately show ?thesis
    using r that by blast
qed



lemma clearEntry_lookup:
  "lookupSlot (commit prev (clearEntry n h prev)) n' h'
     = (if n' = n \<and> h' = h then None else lookupSlot prev n' h')"
  by (cases "prev n")
     (simp_all add: clearEntry_def readNode_def commit_def lookupSlot_def nodeRecordOf_def)

lemma dropNode_lookup:
  "lookupSlot (commit prev (dropNodeUpdater n prev)) n' h'
     = (if n' = n then None else lookupSlot prev n' h')"
  by (simp add: dropNodeUpdater_def commit_def lookupSlot_def nodeRecordOf_def)

lemma dropNodeIfPresent_lookup:
  "lookupSlot (commit prev (dropNodeIfPresentUpdater n prev)) n' h'
     = (if n' = n then None else lookupSlot prev n' h')"
  by (cases "prev n")
     (simp_all add: dropNodeIfPresentUpdater_def readNode_def commit_def lookupSlot_def
        nodeRecordOf_def)

lemma dropNode_commit:
  "commit prev (dropNodeUpdater n prev) = prev(n := None)"
  by (simp add: dropNodeUpdater_def commit_def)

lemma dropNodeIfPresent_commit:
  "commit prev (dropNodeIfPresentUpdater n prev) = prev(n := None)"
  by (cases "prev n")
     (auto simp: dropNodeIfPresentUpdater_def readNode_def commit_def)

lemma clearEntry_commit:
  "commit prev (clearEntry n h prev)
     = (case readNode prev n of
          Absent \<Rightarrow> prev
        | Own handles \<Rightarrow> prev(n \<mapsto> handles(h := None))
        | Inherited path \<Rightarrow> prev(n \<mapsto> Map.empty))"
  by (simp add: clearEntry_def commit_def split: jsRead.splits)


lemma perform_reviewer_effect:
  assumes "perform call s = Inr s'"
  shows "lookupSlot (reviewerRegistry s') n h = lookupSlot (reviewerRegistry s) n h
    \<or> (\<exists>p r. (call = RegisterReviewerPayload n h p
               \<or> (\<exists>url. call = RegisterPreviewPayload n h p url))
          \<and> reconcileTerminalState (p\<lparr>isPolished := Some True\<rparr>)
               (lookupSlot (reviewerRegistry s) n h) = Inr r
          \<and> lookupSlot (reviewerRegistry s') n h = Some r)
    \<or> ((call = UnregisterNode n \<or> call = FlushPipelineInstance n h)
          \<and> lookupSlot (reviewerRegistry s') n h = None)"
proof (cases call)
  case (RegisterReviewerPayload n0 h0 p)
  with assms obtain u where u: "reviewerPayloadUpdater True n0 h0 p (reviewerRegistry s) = Inr u"
    and s': "reviewerRegistry s' = commit (reviewerRegistry s) u"
    by (auto simp: registerReviewerPayload_def split: sum.splits)
  from u show ?thesis
  proof (rule reviewerPayloadUpdater_Inr)
    fix r
    assume "reconcileTerminalState (p\<lparr>isPolished := Some True\<rparr>)
        (lookupSlot (reviewerRegistry s) n0 h0) = Inr r"
      and "\<And>n' h'. lookupSlot (commit (reviewerRegistry s) u) n' h'
           = (if n' = n0 \<and> h' = h0 then Some r else lookupSlot (reviewerRegistry s) n' h')"
    with s' RegisterReviewerPayload show ?thesis
      by (cases "n = n0 \<and> h = h0") auto
  qed
next
  case (RegisterPreviewPayload n0 h0 p url)
  with assms obtain u where u: "reviewerPayloadUpdater True n0 h0 p (reviewerRegistry s) = Inr u"
    and s': "reviewerRegistry s' = commit (reviewerRegistry s) u"
    by (auto simp: registerPreviewPayload_def split: sum.splits)
  from u show ?thesis
  proof (rule reviewerPayloadUpdater_Inr)
    fix r
    assume "reconcileTerminalState (p\<lparr>isPolished := Some True\<rparr>)
        (lookupSlot (reviewerRegistry s) n0 h0) = Inr r"
      and "\<And>n' h'. lookupSlot (commit (reviewerRegistry s) u) n' h'
           = (if n' = n0 \<and> h' = h0 then Some r else lookupSlot (reviewerRegistry s) n' h')"
    with s' RegisterPreviewPayload show ?thesis
      by (cases "n = n0 \<and> h = h0") auto
  qed
next
  case (UnregisterNode n0)
  with assms have "reviewerRegistry s'
      = commit (reviewerRegistry s) (dropNodeUpdater n0 (reviewerRegistry s))"
    by (auto simp: unregisterNode_def)
  with UnregisterNode show ?thesis
    using dropNode_lookup [of "reviewerRegistry s" n0 n h] by auto
next
  case (FlushPipelineInstance n0 h0)
  with assms have "reviewerRegistry s'
      = commit (reviewerRegistry s) (clearEntry n0 h0 (reviewerRegistry s))"
    by (auto simp: flushPipelineInstance_def)
  with FlushPipelineInstance show ?thesis
    using clearEntry_lookup [of "reviewerRegistry s" n0 h0 n h] by auto
next
  case (RegisterPayload n0 h0 p mo)
  with assms have "reviewerRegistry s' = reviewerRegistry s"
    by (auto simp: registerPayload_def split: sum.splits)
  then show ?thesis by simp
next
  case (UpdatePayload n0 h0 partial)
  with assms have "reviewerRegistry s' = reviewerRegistry s"
    by (auto simp: updatePayload_def split: sum.splits)
  then show ?thesis by simp
qed (use assms in \<open>auto simp: registerPsd_def registerTemplate_def registerResolved_def
       registerAnalysis_def registerFeedback_def clearFeedback_def registerKnowledge_def
       updatePreview_def triggerGlobalRefresh_def\<close>)

text \<open>The reviewer registry of a reachable state holds polished or reset payloads only.\<close>

lemma reachable_polished:
  assumes "reachable s"
  shows "lookupSlot (reviewerRegistry s) n h = Some p \<Longrightarrow> polishedOrReset p"
  using assms
proof (induction arbitrary: n h p rule: reachable.induct)
  case reachable_initial
  then show ?case
    by (simp add: initialState_def lookupSlot_def nodeRecordOf_def)
next
  case (reachable_call s call s')
  from perform_reviewer_effect [OF reachable_call.hyps(3), of n h]
  consider (same) "lookupSlot (reviewerRegistry s') n h = lookupSlot (reviewerRegistry s) n h"
    | (written) q r where "reconcileTerminalState (q\<lparr>isPolished := Some True\<rparr>)
          (lookupSlot (reviewerRegistry s) n h) = Inr r"
        "lookupSlot (reviewerRegistry s') n h = Some r"
    | (removed) "lookupSlot (reviewerRegistry s') n h = None"
    by auto
  then show ?case
  proof cases
    case same
    with reachable_call.prems reachable_call.IH show ?thesis by simp
  next
    case (written q r)
    with reachable_call.prems reachable_call.IH show ?thesis
      using reconcile_polished [of q "lookupSlot (reviewerRegistry s) n h" r] by simp
  next
    case removed
    with reachable_call.prems show ?thesis by simp
  qed
qed

lemma performAll_reachable:
  "reachable s \<Longrightarrow> list_all plainCall calls \<Longrightarrow> performAll calls s = Inr s' \<Longrightarrow>
   reachable s'"
proof (induction calls arbitrary: s)
  case Nil
  then show ?case by simp
next
  case (Cons call calls)
  then show ?case
    by (auto split: sum.splits intro: reachable_call)
qed

section \<open>Reset\<close>

text \<open>
  Claim C5. An incoming payload with status idle and no generation id is returned with
  \<open>previewUrl\<close> and \<open>sourceReference\<close> absent and \<open>isConfirmed\<close>, \<open>isTransient\<close>,
  \<open>isSynthesizing\<close>, \<open>isPolished\<close>, \<open>requiresGeneration\<close> false; every other field is the
  incoming one, and the current payload, present or absent, plays no part.
\<close>

theorem reset_property:
  assumes "status incoming = Some Idle" and "\<not> present (generationId incoming)"
  shows "reconcileTerminalState incoming current =
     Inr (incoming\<lparr>previewUrl := None, isConfirmed := Some False, isTransient := Some False,
       isSynthesizing := Some False, isPolished := Some False,
       requiresGeneration := Some False, sourceReference := None\<rparr>)"
  using assms by (rule rule_reset)

text \<open>The reset at an idle payload that arrives polished and with a preview.\<close>

theorem reset_property_witness:
  "status (blankPayload\<lparr>status := Some Idle, previewUrl := Some ''blob:1'',
      isPolished := Some True\<rparr> :: unit payload) = Some Idle
   \<and> \<not> present (generationId (blankPayload\<lparr>status := Some Idle, previewUrl := Some ''blob:1'',
      isPolished := Some True\<rparr> :: unit payload))
   \<and> reconcileTerminalState
       (blankPayload\<lparr>status := Some Idle, previewUrl := Some ''blob:1'',
          isPolished := Some True\<rparr> :: unit payload)
       (Some (payloadWithId ''g1''))
     = Inr (blankPayload\<lparr>status := Some Idle, isConfirmed := Some False,
         isTransient := Some False, isSynthesizing := Some False, isPolished := Some False,
         requiresGeneration := Some False\<rparr>)"
  using reset_property [of "blankPayload\<lparr>status := Some Idle, previewUrl := Some ''blob:1'',
      isPolished := Some True\<rparr> :: unit payload" "Some (payloadWithId ''g1'')"]
  by (simp add: blankPayload_def present_def)

section \<open>Stale rejection\<close>

text \<open>
  Claim C1 as worded asks nothing of the other fields of the incoming payload. It fails
  when the incoming payload closes the generation switch: that rule comes before the stale
  guard, and the older write goes through.
\<close>

theorem stale_rejection_counterexample:
  "present (generationId (payloadWithId ''a'' :: unit payload))
   \<and> present (generationId (payloadWithId ''b'' :: unit payload))
   \<and> jsStringLess ''a'' ''b''
   \<and> reconcileTerminalState
       ((payloadWithId ''a'' :: unit payload)\<lparr>generationAllowed := Some False\<rparr>)
       (Some (payloadWithId ''b''))
     \<noteq> Inr (payloadWithId ''b'')"
  by (simp add: reconcileTerminalStateBy_def payloadWithId_def blankPayload_def present_def)

text \<open>
  Claim C1, amended. When both generation ids are present (defined and not empty), the
  incoming one is less than the current one, and the incoming payload neither has
  \<open>generationAllowed = false\<close> nor is a mandatory one that requires generation, the
  reconciliation returns the current payload unchanged.
\<close>

theorem stale_rejection:
  assumes "generationId incoming = Some gi" and "gi \<noteq> []"
    and "generationId current = Some gc" and "jsStringLess gi gc"
    and "generationAllowed incoming \<noteq> Some False"
    and "\<not> (isForced incoming \<and> isTrue (requiresGeneration incoming))"
  shows "reconcileTerminalState incoming (Some current) = Inr current"
proof -
  from assms(4) have "gc \<noteq> []"
    using jsStringLess_Nil by blast
  with assms(1-4) have "staleGuard incoming (Some current)"
    by (simp add: staleGuardBy_def opt_def)
  moreover from assms(1,2) have "present (generationId incoming)"
    by (simp add: present_def)
  ultimately show ?thesis
    using assms(5,6) by (intro rule_stale) auto
qed

text \<open>The rejection of a write with id \<open>"a"\<close> against a stored \<open>"b"\<close>.\<close>

theorem stale_rejection_witness:
  "generationId (payloadWithId ''a'' :: unit payload) = Some ''a'' \<and> ''a'' \<noteq> []
   \<and> generationId (payloadWithId ''b'' :: unit payload) = Some ''b'' \<and> jsStringLess ''a'' ''b''
   \<and> generationAllowed (payloadWithId ''a'' :: unit payload) \<noteq> Some False
   \<and> \<not> (isForced (payloadWithId ''a'' :: unit payload)
         \<and> isTrue (requiresGeneration (payloadWithId ''a'' :: unit payload)))
   \<and> reconcileTerminalState (payloadWithId ''a'' :: unit payload) (Some (payloadWithId ''b''))
     = Inr (payloadWithId ''b'')"
  using stale_rejection [of "payloadWithId ''a'' :: unit payload" "''a''" "payloadWithId ''b''" "''b''"]
  by (simp add: payloadWithId_def blankPayload_def isForced_def isTrue_def)

section \<open>The order of the tokens in the stale guard\<close>




section \<open>Filtering of the layers when generation is disallowed\<close>

text \<open>
  Claim C6 as worded keeps every generative layer whose id lacks the synthetic prefix. A
  generative layer whose id is the empty string lacks it, and the code drops that layer
  all the same, since the filter first tests that the id is truthy.
\<close>

theorem gate_filtering_counterexample:
  "(case reconcileTerminalState
      ((payloadWithId ''g1'' :: unit payload)\<lparr>generationAllowed := Some False,
         layers := Some [\<lparr>layer_id = Some [], layer_type = ''generative''\<rparr>]\<rparr>) None of
      Inl e \<Rightarrow> None | Inr r \<Rightarrow> layers r) = Some []
   \<and> specGateLayers [\<lparr>layer_id = Some [], layer_type = ''generative''\<rparr>]
     = [\<lparr>layer_id = Some [], layer_type = ''generative''\<rparr>]"
  by (simp add: reconcileTerminalStateBy_def payloadWithId_def blankPayload_def present_def
        keepLayer_def specGateLayers_def hasSyntheticPrefix_def startsWith_def)

text \<open>
  Claim C6, amended. For an incoming payload with \<open>generationAllowed = false\<close> that does
  not match the reset rule and has its layers, whatever the current payload, the result is
  the incoming payload with \<open>previewUrl\<close> absent, \<open>isConfirmed\<close>, \<open>isTransient\<close>,
  \<open>isSynthesizing\<close>, \<open>requiresGeneration\<close> false, \<open>metrics\<close> as it came, and the layers in
  their order without those of type generative whose id is missing, empty or carries the
  synthetic prefix.
\<close>

theorem gate_filtering:
  assumes "generationAllowed incoming = Some False"
    and "status incoming \<noteq> Some Idle \<or> present (generationId incoming)"
    and "layers incoming = Some ls"
  shows "reconcileTerminalState incoming current =
     Inr (incoming\<lparr>previewUrl := None, isConfirmed := Some False, isTransient := Some False,
       isSynthesizing := Some False, requiresGeneration := Some False,
       metrics := metrics incoming,
       layers := Some (filter (\<lambda>l. \<not> (layer_type l = ''generative''
                          \<and> (\<not> present (layer_id l) \<or> hasSyntheticPrefix l))) ls)\<rparr>)"
proof -
  have "keepLayer = (\<lambda>l. \<not> (layer_type l = ''generative''
                          \<and> (\<not> present (layer_id l) \<or> hasSyntheticPrefix l)))"
    by (auto simp: keepLayer_def present_def hasSyntheticPrefix_def fun_eq_iff
        split: option.splits)
  then show ?thesis
    using rule_gate [OF assms(2) assms(1), of current] assms(3) by simp
qed

text \<open>The example of the specification: of the three layers the first and the third stay.\<close>

theorem gate_filtering_witness:
  "generationAllowed ((payloadWithId ''g1'' :: unit payload)\<lparr>generationAllowed := Some False,
      layers := Some gateExampleLayers\<rparr>) = Some False
   \<and> present (generationId ((payloadWithId ''g1'' :: unit payload)\<lparr>
        generationAllowed := Some False, layers := Some gateExampleLayers\<rparr>))
   \<and> reconcileTerminalState
       ((payloadWithId ''g1'' :: unit payload)\<lparr>generationAllowed := Some False,
          layers := Some gateExampleLayers\<rparr>) None
     = Inr ((payloadWithId ''g1'')\<lparr>isConfirmed := Some False, isTransient := Some False,
         isSynthesizing := Some False, requiresGeneration := Some False,
         generationAllowed := Some False,
         layers := Some [\<lparr>layer_id = Some ''0.3.1'', layer_type = ''generative''\<rparr>,
                         \<lparr>layer_id = Some ''bg'', layer_type = ''pixel''\<rparr>]\<rparr>)"
  using gate_filtering [of "(payloadWithId ''g1'' :: unit payload)\<lparr>
      generationAllowed := Some False, layers := Some gateExampleLayers\<rparr>"
      gateExampleLayers None]
  by (simp add: payloadWithId_def blankPayload_def present_def gateExampleLayers_def
        hasSyntheticPrefix_def startsWith_def)

section \<open>Removing a node\<close>

text \<open>
  Claim C7 as worded has every lookup at the removed node id return absent, for every
  node id. A registry is a plain object: at a node id that names a member of
  \<open>Object.prototype\<close> the read returns that member, before the call and after it.
\<close>

theorem unregisterNode_teardown_counterexample:
  "readNode (psdRegistry (unregisterNode ''constructor'' exampleState)) ''constructor''
     = Inherited [''constructor'']
   \<and> readNode (psdRegistry (unregisterNode ''constructor'' exampleState)) ''constructor''
     \<noteq> Absent"
  by (simp add: unregisterNode_def dropNodeUpdater_def commit_def readNode_def plainKey_def
        objectPrototypeMembers_def exampleState_def)

text \<open>
  Claim C7, amended. For every node id \<open>n\<close> that names no member of
  \<open>Object.prototype\<close>, after \<open>unregisterNode n\<close> every registry's read at \<open>n\<close>, and at
  every address \<open>(n, h)\<close>, is absent; what each registry holds for any other node is
  unchanged; and \<open>globalVersion\<close>, while below \<open>2^53\<close>, is one more than before.
\<close>

theorem unregisterNode_teardown:
  fixes s :: "('a, 't, 'r, 'm, 'l, 'f, 'k) proceduralState"
  assumes "plainKey n" and "globalVersion s < 9007199254740992"
  shows "(let s' = unregisterNode n s in
     (readNode (psdRegistry s') n = Absent \<and> readNode (templateRegistry s') n = Absent \<and>
      readNode (knowledgeRegistry s') n = Absent \<and>
      readNode (resolvedRegistry s') n = Absent \<and> readNode (payloadRegistry s') n = Absent \<and>
      readNode (reviewerRegistry s') n = Absent \<and> readNode (previewRegistry s') n = Absent \<and>
      readNode (analysisRegistry s') n = Absent \<and> readNode (feedbackRegistry s') n = Absent) \<and>
     (readSlot (resolvedRegistry s') n h = Absent \<and>
      readSlot (payloadRegistry s') n h = Absent \<and>
      readSlot (reviewerRegistry s') n h = Absent \<and>
      readSlot (previewRegistry s') n h = Absent \<and>
      readSlot (analysisRegistry s') n h = Absent \<and>
      readSlot (feedbackRegistry s') n h = Absent) \<and>
     (m \<noteq> n \<longrightarrow>
        psdRegistry s' m = psdRegistry s m \<and> templateRegistry s' m = templateRegistry s m \<and>
        knowledgeRegistry s' m = knowledgeRegistry s m \<and>
        resolvedRegistry s' m = resolvedRegistry s m \<and>
        payloadRegistry s' m = payloadRegistry s m \<and>
        reviewerRegistry s' m = reviewerRegistry s m \<and>
        previewRegistry s' m = previewRegistry s m \<and>
        analysisRegistry s' m = analysisRegistry s m \<and>
        feedbackRegistry s' m = feedbackRegistry s m) \<and>
     globalVersion s' = globalVersion s + 1)"
  using assms
  by (simp add: Let_def unregisterNode_def dropNode_commit dropNodeIfPresent_commit
        readNode_def readSlot_def nextVersion_def)

text \<open>Removing the first node of the example store leaves the second as it was.\<close>

theorem unregisterNode_teardown_witness:
  "plainKey ''n1'' \<and> globalVersion exampleState < 9007199254740992 \<and> ''n2'' \<noteq> ''n1''
   \<and> readNode (psdRegistry (unregisterNode ''n1'' exampleState)) ''n1'' = Absent
   \<and> readNode (knowledgeRegistry (unregisterNode ''n1'' exampleState)) ''n1'' = Absent
   \<and> readSlot (payloadRegistry (unregisterNode ''n1'' exampleState)) ''n1'' ''out-0'' = Absent
   \<and> readSlot (previewRegistry (unregisterNode ''n1'' exampleState)) ''n1'' ''out-0'' = Absent
   \<and> psdRegistry (unregisterNode ''n1'' exampleState) ''n2'' = Some 2
   \<and> lookupSlot (payloadRegistry (unregisterNode ''n1'' exampleState)) ''n2'' ''out-0''
       = Some (payloadWithId ''g3'')
   \<and> globalVersion (unregisterNode ''n1'' exampleState) = 4"
proof -
  have plain: "plainKey ''n1''"
    by (simp add: plainKey_def objectPrototypeMembers_def)
  have below: "globalVersion exampleState < 9007199254740992"
    by (simp add: exampleState_def)
  show ?thesis
    using plain below
      unregisterNode_teardown [OF plain below, of "''out-0''" "''n2''"]
    by (simp add: Let_def exampleState_def lookupSlot_def nodeRecordOf_def)
qed

section \<open>Flushing a slot\<close>

text \<open>
  Claim C8 as worded has the flushed address absent from the six registries, for every
  handle id. After the flush of a handle id that names a member of \<open>Object.prototype\<close>
  the read at the address returns that member.
\<close>

theorem flushPipelineInstance_isolation_counterexample:
  "readSlot (payloadRegistry (flushPipelineInstance ''n1'' ''constructor'' exampleState))
       ''n1'' ''constructor''
     = Inherited [''constructor'']
   \<and> readSlot (payloadRegistry (flushPipelineInstance ''n1'' ''constructor'' exampleState))
       ''n1'' ''constructor''
     \<noteq> Absent"
  by (simp add: flushPipelineInstance_def clearEntry_def commit_def readSlot_def readNode_def
        plainKey_def objectPrototypeMembers_def exampleState_def)

text \<open>
  Claim C8, amended. For a node id \<open>n\<close> and a handle id \<open>h\<close> that name no member of
  \<open>Object.prototype\<close>, after \<open>flushPipelineInstance n h\<close> the read at \<open>(n, h)\<close> is absent
  in the resolved, payload, reviewer, preview, analysis and feedback registries; the
  read at every other slot of \<open>n\<close> and the entries of every other node in these six
  registries, the three registries keyed by node alone, and \<open>globalVersion\<close> are
  unchanged.
\<close>

theorem flushPipelineInstance_isolation:
  fixes s :: "('a, 't, 'r, 'm, 'l, 'f, 'k) proceduralState"
  assumes "plainKey n" and "plainKey h"
  shows "(let s' = flushPipelineInstance n h s in
     (readSlot (resolvedRegistry s') n h = Absent \<and>
      readSlot (payloadRegistry s') n h = Absent \<and>
      readSlot (reviewerRegistry s') n h = Absent \<and>
      readSlot (previewRegistry s') n h = Absent \<and>
      readSlot (analysisRegistry s') n h = Absent \<and>
      readSlot (feedbackRegistry s') n h = Absent) \<and>
     (h2 \<noteq> h \<longrightarrow>
        readSlot (resolvedRegistry s') n h2 = readSlot (resolvedRegistry s) n h2 \<and>
        readSlot (payloadRegistry s') n h2 = readSlot (payloadRegistry s) n h2 \<and>
        readSlot (reviewerRegistry s') n h2 = readSlot (reviewerRegistry s) n h2 \<and>
        readSlot (previewRegistry s') n h2 = readSlot (previewRegistry s) n h2 \<and>
        readSlot (analysisRegistry s') n h2 = readSlot (analysisRegistry s) n h2 \<and>
        readSlot (feedbackRegistry s') n h2 = readSlot (feedbackRegistry s) n h2) \<and>
     (m \<noteq> n \<longrightarrow>
        resolvedRegistry s' m = resolvedRegistry s m \<and>
        payloadRegistry s' m = payloadRegistry s m \<and>
        reviewerRegistry s' m = reviewerRegistry s m \<and>
        previewRegistry s' m = previewRegistry s m \<and>
        analysisRegistry s' m = analysisRegistry s m \<and>
        feedbackRegistry s' m = feedbackRegistry s m) \<and>
     psdRegistry s' = psdRegistry s \<and> templateRegistry s' = templateRegistry s \<and>
     knowledgeRegistry s' = knowledgeRegistry s \<and>
     globalVersion s' = globalVersion s)"
proof -
  have at: "readSlot (commit reg (clearEntry n h reg)) n h = Absent"
    and other: "h2 \<noteq> h \<Longrightarrow>
      readSlot (commit reg (clearEntry n h reg)) n h2 = readSlot reg n h2"
    and frame: "m \<noteq> n \<Longrightarrow> commit reg (clearEntry n h reg) m = reg m"
    for reg :: "'v slotRegistry"
    using assms
    by (cases "reg n"; simp add: clearEntry_def commit_def readSlot_def readNode_def)+
  show ?thesis
    by (simp add: Let_def flushPipelineInstance_def at other frame)
qed

text \<open>Flushing one slot of the first node of the example store.\<close>

theorem flushPipelineInstance_isolation_witness:
  "plainKey ''n1'' \<and> plainKey ''out-0'' \<and> ''out-1'' \<noteq> ''out-0'' \<and> ''n2'' \<noteq> ''n1''
   \<and> readSlot (payloadRegistry (flushPipelineInstance ''n1'' ''out-0'' exampleState))
        ''n1'' ''out-0'' = Absent
   \<and> readSlot (feedbackRegistry (flushPipelineInstance ''n1'' ''out-0'' exampleState))
        ''n1'' ''out-0'' = Absent
   \<and> readSlot (payloadRegistry (flushPipelineInstance ''n1'' ''out-0'' exampleState))
        ''n1'' ''out-1'' = Own (payloadWithId ''g2'')
   \<and> lookupSlot (payloadRegistry (flushPipelineInstance ''n1'' ''out-0'' exampleState))
        ''n2'' ''out-0'' = Some (payloadWithId ''g3'')
   \<and> psdRegistry (flushPipelineInstance ''n1'' ''out-0'' exampleState) ''n1'' = Some 1
   \<and> globalVersion (flushPipelineInstance ''n1'' ''out-0'' exampleState) = 3"
proof -
  have plain: "plainKey ''n1''" "plainKey ''out-0''"
    by (simp_all add: plainKey_def objectPrototypeMembers_def)
  show ?thesis
    using plain
      flushPipelineInstance_isolation [OF plain, of exampleState "''out-1''" "''n2''"]
    by (simp add: Let_def exampleState_def lookupSlot_def nodeRecordOf_def readSlot_def
          readNode_def)
qed

section \<open>The reviewer registry\<close>

text \<open>
  Claim C2 as worded has every payload of the reviewer registry polished. The writer sets
  \<open>isPolished\<close> on the incoming payload, but the reset rule then clears it: registering an
  idle payload without generation id stores a payload with \<open>isPolished = false\<close>.
\<close>

theorem reviewer_polished_counterexample:
  "perform (RegisterReviewerPayload ''n1'' ''out-0'' (blankPayload\<lparr>status := Some Idle\<rparr>))
      initialState = Inr resetReviewerState
   \<and> reachable resetReviewerState
   \<and> lookupSlot (reviewerRegistry resetReviewerState) ''n1'' ''out-0'' = Some resetPayload
   \<and> isPolished (resetPayload :: unit payload) = Some False"
proof -
  have step: "perform (RegisterReviewerPayload ''n1'' ''out-0'' (blankPayload\<lparr>status := Some Idle\<rparr>))
      initialState = Inr resetReviewerState"
    by (simp add: call_defs updater_defs reconcileTerminalStateBy_def blankPayload_def
          payloadWithId_def resetPayload_def polishedPayload_def js_defs
          resetReviewerState_def initialState_def)
  moreover have "plainCall (RegisterReviewerPayload ''n1'' ''out-0''
      (blankPayload\<lparr>status := Some Idle\<rparr> :: unit payload) :: (unit, unit, unit, unit, unit, unit, unit) storeCall)"
    by (simp add: plainKey_def objectPrototypeMembers_def)
  ultimately have "reachable resetReviewerState"
    using reachable_initial reachable_call by blast
  with step show ?thesis
    by (simp add: resetReviewerState_def lookupSlot_def nodeRecordOf_def resetPayload_def)
qed

text \<open>
  Claim C2, amended. In every state reached from the initial one by calls of the entry
  points whose node and handle ids name no member of \<open>Object.prototype\<close>, every payload
  of the reviewer registry has \<open>isPolished = true\<close>, or it is a reset payload: its status
  is idle, it has no generation id, and \<open>isPolished\<close> is false.
\<close>

theorem reviewer_polished_or_reset:
  assumes "reachable s" and "lookupSlot (reviewerRegistry s) n h = Some p"
  shows "isPolished p = Some True
    \<or> (status p = Some Idle \<and> \<not> present (generationId p) \<and> isPolished p = Some False)"
  using reachable_polished [OF assms] by (simp add: polishedOrReset_def)

text \<open>The state after one reviewer call holds a polished payload.\<close>

theorem reviewer_polished_or_reset_witness:
  "reachable polishedReviewerState
   \<and> lookupSlot (reviewerRegistry polishedReviewerState) ''n1'' ''out-0'' = Some polishedPayload
   \<and> isPolished (polishedPayload :: unit payload) = Some True"
proof -
  have "perform (RegisterReviewerPayload ''n1'' ''out-0'' (payloadWithId ''g1''))
      initialState = Inr polishedReviewerState"
    by (simp add: call_defs updater_defs reconcileTerminalStateBy_def blankPayload_def
          payloadWithId_def resetPayload_def polishedPayload_def js_defs
          polishedReviewerState_def initialState_def)
  moreover have "plainCall (RegisterReviewerPayload ''n1'' ''out-0''
      (payloadWithId ''g1'' :: unit payload) :: (unit, unit, unit, unit, unit, unit, unit) storeCall)"
    by (simp add: plainKey_def objectPrototypeMembers_def)
  ultimately have r: "reachable polishedReviewerState"
    using reachable_initial reachable_call by blast
  have l: "lookupSlot (reviewerRegistry polishedReviewerState) ''n1'' ''out-0''
      = Some polishedPayload"
    by (simp add: polishedReviewerState_def lookupSlot_def nodeRecordOf_def)
  show ?thesis
    using r l reviewer_polished_or_reset [OF r l]
    by (simp add: polishedPayload_def payloadWithId_def blankPayload_def present_def)
qed

section \<open>Generation ids in the payload registry\<close>




section \<open>Writes and the reconciliation\<close>





section \<open>Writes that change nothing\<close>
















end
